theory Spec2Isabelle
  imports Complex_Main "HOL-Library.Word"
begin

section \<open>Data model\<close>

text \<open>
  The analyzer of \<^verbatim>\<open>analyze_behavior.py\<close> keeps a pandas DataFrame in
  \<^verbatim>\<open>self.tracking_data\<close> and a dictionary in \<^verbatim>\<open>self.analysis_results\<close>.
  A DataFrame is modelled as the list of its rows in index order, a row as a record of the
  six columns the code names (a frame lacking one of these columns, for which the code
  raises KeyError, has no counterpart). Timestamps are whole minutes counted from
  2024-01-01 00:00, the start the generator passes to \<^verbatim>\<open>pd.date_range\<close>.

  numpy computes on a position in the dtype of its column, so the analysis has one instance
  per dtype. The record \<open>sample\<close> is for frames whose two position columns are float64, as
  the generator makes them and as \<^verbatim>\<open>pd.read_csv\<close> types a column written with decimal
  points. There positions, velocities and distances are real numbers, so rounding,
  infinities and NaN inputs are outside the model. \<^verbatim>\<open>pd.read_csv\<close> types a column
  written without decimal points int64; the differences, squares and sum of the loop body are
  then int64 operations, which wrap around. Frames whose two position columns are int64
  are modelled by \<open>int64_row\<close> and \<open>analyze_int64\<close> below, with 64-bit words. A frame with
  one int64 and one float64 position column is not modelled.
\<close>

record sample =
  timestamp :: int
  turtle_id :: string
  x_position :: real
  y_position :: real
  velocity :: real
  interaction_type :: string

type_synonym data_frame = "sample list"

text \<open>
  Values stored in the results dictionary: \<^verbatim>\<open>np.mean\<close> and \<^verbatim>\<open>np.min\<close> give
  floats (\<^verbatim>\<open>np.mean\<close> of an empty list gives NaN), \<^verbatim>\<open>len\<close> gives an int.
\<close>

datatype result_value = PyFloat real | PyNaN | PyInt int

datatype py_error = AttributeError | ValueError | ReadError

text \<open>
  \<^verbatim>\<open>__init__\<close> sets \<^verbatim>\<open>species\<close>, \<^verbatim>\<open>duration\<close>, \<^verbatim>\<open>data_points\<close> and
  \<^verbatim>\<open>analysis_results\<close>; the attribute \<^verbatim>\<open>tracking_data\<close> does not exist until a
  load or the generator assigns it, which is \<open>None\<close> here.
\<close>

record analyzer =
  species :: string
  duration :: string
  data_points :: "sample list"
  tracking_data :: "data_frame option"
  analysis_results :: "string \<rightharpoonup> result_value"

definition init :: "string \<Rightarrow> string \<Rightarrow> analyzer" where
  "init sp du =
     \<lparr>species = sp, duration = du, data_points = [], tracking_data = None,
      analysis_results = Map.empty\<rparr>"

section \<open>Movement analysis\<close>

text \<open>\<^verbatim>\<open>df[df['turtle_id'] == name]\<close>: the rows with that id, in their order in the frame.\<close>

definition select_turtle :: "string \<Rightarrow> data_frame \<Rightarrow> data_frame" where
  "select_turtle name df = filter (\<lambda>r. turtle_id r = name) df"

text \<open>
  The body of the loop on float64 columns: the distance of row \<open>i\<close> of the one frame to
  row \<open>i\<close> of the other. (For int64 columns see \<open>dist_at_int64\<close>.)
\<close>

definition dist_at :: "data_frame \<Rightarrow> data_frame \<Rightarrow> nat \<Rightarrow> real" where
  "dist_at turtle_a turtle_b i =
     sqrt ((x_position (turtle_a ! i) - x_position (turtle_b ! i))\<^sup>2 +
           (y_position (turtle_a ! i) - y_position (turtle_b ! i))\<^sup>2)"

text \<open>
  \<^verbatim>\<open>for i in range(min(len(turtle_a), len(turtle_b))): ... distances.append(dist)\<close>,
  starting from the empty list. Every index read is below both lengths.
\<close>

definition collect_distances :: "data_frame \<Rightarrow> data_frame \<Rightarrow> real list" where
  "collect_distances turtle_a turtle_b =
     fold (\<lambda>i distances. distances @ [dist_at turtle_a turtle_b i])
       [0 ..< min (length turtle_a) (length turtle_b)] []"

text \<open>\<^verbatim>\<open>np.mean\<close>: the sum divided by the count; NaN for an empty list.\<close>

definition np_mean :: "real list \<Rightarrow> result_value" where
  "np_mean ds = (if ds = [] then PyNaN else PyFloat (sum_list ds / real (length ds)))"

text \<open>\<^verbatim>\<open>np.min\<close>: the least element; it raises ValueError for an empty list.\<close>

fun np_min :: "real list \<Rightarrow> py_error + result_value" where
  "np_min [] = Inl ValueError"
| "np_min (d # ds) = Inr (PyFloat (fold min ds d))"

text \<open>
  \<^verbatim>\<open>analyze_movement_patterns\<close>. Reading \<^verbatim>\<open>self.tracking_data\<close> before any load
  raises AttributeError. The three keys are written in the order of the source; an
  exception of \<^verbatim>\<open>np.min\<close> would leave \<^verbatim>\<open>avg_distance\<close> written, which the model
  cannot show in an error value and which the guard excludes (see \<open>collect_distances_length\<close>).
\<close>

definition analyze_movement_patterns :: "analyzer \<Rightarrow> py_error + analyzer" where
  "analyze_movement_patterns a =
     (case tracking_data a of
        None \<Rightarrow> Inl AttributeError
      | Some df \<Rightarrow>
          let turtle_a = select_turtle ''turtle_a'' df;
              turtle_b = select_turtle ''turtle_b'' df
          in if length turtle_a > 0 \<and> length turtle_b > 0 then
               let distances = collect_distances turtle_a turtle_b;
                   r1 = (analysis_results a)(''avg_distance'' \<mapsto> np_mean distances)
               in case np_min distances of
                    Inl e \<Rightarrow> Inl e
                  | Inr m \<Rightarrow>
                      let r2 = r1(''min_distance'' \<mapsto> m);
                          r3 = r2(''interaction_frequency'' \<mapsto>
                                 PyInt (int (length (filter (\<lambda>d. d < 10) distances))))
                      in Inr (a\<lparr>analysis_results := r3\<rparr>)
             else Inr a)"

section \<open>Movement analysis on int64 position columns\<close>

text \<open>
  The columns the analysis reads from a row of a frame whose position columns are int64.
\<close>

record int64_row =
  subject :: string
  x_int64 :: "64 word"
  y_int64 :: "64 word"

definition select_turtle_int64 :: "string \<Rightarrow> int64_row list \<Rightarrow> int64_row list" where
  "select_turtle_int64 name df = filter (\<lambda>r. subject r = name) df"

text \<open>
  \<^verbatim>\<open>np.sqrt\<close> of an int64 value: the square root of the signed value as a float, NaN for
  a negative one. The conversion of the integer to float64 and the root are taken as exact,
  as on float64 columns.
\<close>

definition np_sqrt_int64 :: "64 word \<Rightarrow> result_value" where
  "np_sqrt_int64 s = (if sint s < 0 then PyNaN else PyFloat (sqrt (real_of_int (sint s))))"

text \<open>
  The body of the loop on int64 columns: the two differences, their squares and the sum are
  int64 values, computed modulo \<open>2 ^ 64\<close>.
\<close>

definition dist_at_int64 :: "int64_row list \<Rightarrow> int64_row list \<Rightarrow> nat \<Rightarrow> result_value" where
  "dist_at_int64 turtle_a turtle_b i =
     np_sqrt_int64 ((x_int64 (turtle_a ! i) - x_int64 (turtle_b ! i))\<^sup>2 +
                    (y_int64 (turtle_a ! i) - y_int64 (turtle_b ! i))\<^sup>2)"

definition collect_distances_int64 ::
  "int64_row list \<Rightarrow> int64_row list \<Rightarrow> result_value list" where
  "collect_distances_int64 turtle_a turtle_b =
     fold (\<lambda>i distances. distances @ [dist_at_int64 turtle_a turtle_b i])
       [0 ..< min (length turtle_a) (length turtle_b)] []"

text \<open>
  The distances are floats, some of them possibly NaN. \<^verbatim>\<open>np.mean\<close> and
  \<^verbatim>\<open>np.min\<close> give NaN as soon as one element is NaN, and \<^verbatim>\<open>d < 10\<close> is false for NaN.
\<close>

fun float_values :: "result_value list \<Rightarrow> real list option" where
  "float_values [] = Some []"
| "float_values (PyFloat r # ds) = map_option ((#) r) (float_values ds)"
| "float_values (d # ds) = None"

definition np_mean_floats :: "result_value list \<Rightarrow> result_value" where
  "np_mean_floats ds = (case float_values ds of None \<Rightarrow> PyNaN | Some rs \<Rightarrow> np_mean rs)"

definition np_min_floats :: "result_value list \<Rightarrow> py_error + result_value" where
  "np_min_floats ds =
     (if ds = [] then Inl ValueError
      else case float_values ds of None \<Rightarrow> Inr PyNaN | Some rs \<Rightarrow> np_min rs)"

fun below_ten :: "result_value \<Rightarrow> bool" where
  "below_ten (PyFloat r) = (r < 10)"
| "below_ten d = False"

text \<open>
  \<^verbatim>\<open>analyze_movement_patterns\<close> on a loaded frame with int64 position columns, as a
  function of the results dictionary before the call; it returns the dictionary after it.
\<close>

definition analyze_int64 ::
  "(string \<rightharpoonup> result_value) \<Rightarrow> int64_row list \<Rightarrow> py_error + (string \<rightharpoonup> result_value)" where
  "analyze_int64 results df =
     (let turtle_a = select_turtle_int64 ''turtle_a'' df;
          turtle_b = select_turtle_int64 ''turtle_b'' df
      in if length turtle_a > 0 \<and> length turtle_b > 0 then
           let distances = collect_distances_int64 turtle_a turtle_b;
               r1 = results(''avg_distance'' \<mapsto> np_mean_floats distances)
           in case np_min_floats distances of
                Inl e \<Rightarrow> Inl e
              | Inr m \<Rightarrow>
                  let r2 = r1(''min_distance'' \<mapsto> m);
                      r3 = r2(''interaction_frequency'' \<mapsto>
                             PyInt (int (length (filter below_ten distances))))
                  in Inr r3
         else Inr results)"

section \<open>The synthetic generator\<close>

text \<open>
  numpy's global random generator is not part of the repository, so it is a parameter: a
  state type \<open>'g\<close> and one function per kind of draw, each returning the value drawn and the
  next state. \<^verbatim>\<open>np.random.seed(s)\<close> replaces the global state by one that depends on
  \<open>s\<close> alone. An array of \<open>n\<close> draws is \<open>n\<close> draws in sequence.
\<close>

record 'g np_random =
  seed :: "nat \<Rightarrow> 'g"
  standard_normal :: "'g \<Rightarrow> real \<times> 'g"
  gamma_draw :: "real \<Rightarrow> real \<Rightarrow> 'g \<Rightarrow> real \<times> 'g"
  choice_draw :: "string list \<Rightarrow> 'g \<Rightarrow> string \<times> 'g"

primrec draws :: "nat \<Rightarrow> ('g \<Rightarrow> 'a \<times> 'g) \<Rightarrow> 'g \<Rightarrow> 'a list \<times> 'g" where
  "draws 0 f g = ([], g)"
| "draws (Suc n) f g =
     (let (v, g1) = f g; (vs, g2) = draws n f g1 in (v # vs, g2))"

text \<open>\<^verbatim>\<open>np.cumsum\<close>: the running sums of a list.\<close>

fun cumsum_from :: "real \<Rightarrow> real list \<Rightarrow> real list" where
  "cumsum_from s [] = []"
| "cumsum_from s (x # xs) = (s + x) # cumsum_from (s + x) xs"

definition np_cumsum :: "real list \<Rightarrow> real list" where
  "np_cumsum xs = cumsum_from 0 xs"

text \<open>
  \<^verbatim>\<open>pd.date_range(start, periods=n, freq='1min')\<close>: \<open>n\<close> instants one minute apart,
  the first at \<open>start\<close>.
\<close>

definition date_range :: "int \<Rightarrow> nat \<Rightarrow> int list" where
  "date_range start periods = map (\<lambda>i. start + int i) [0 ..< periods]"

text \<open>
  \<^verbatim>\<open>pd.DataFrame({...})\<close> from six columns: row \<open>i\<close> takes entry \<open>i\<close> of each column;
  columns of different lengths raise ValueError.
\<close>

definition DataFrame ::
  "int list \<Rightarrow> string list \<Rightarrow> real list \<Rightarrow> real list \<Rightarrow> real list \<Rightarrow> string list
     \<Rightarrow> py_error + data_frame" where
  "DataFrame ts ids xs ys vs its =
     (if length ids = length ts \<and> length xs = length ts \<and> length ys = length ts \<and>
         length vs = length ts \<and> length its = length ts
      then Inr (map (\<lambda>i. \<lparr>timestamp = ts ! i, turtle_id = ids ! i, x_position = xs ! i,
                         y_position = ys ! i, velocity = vs ! i,
                         interaction_type = its ! i\<rparr>) [0 ..< length ts])
      else Inl ValueError)"

text \<open>
  \<^verbatim>\<open>_generate_synthetic_data\<close>, with the global generator state passed in and out. The
  draws happen in the order of the source: the two \<^verbatim>\<open>randn\<close> arrays, then, while the
  dictionary literal is evaluated, the ids, the velocities and the interaction types.
\<close>

definition generate_synthetic_data ::
  "'g np_random \<Rightarrow> 'g \<Rightarrow> analyzer \<Rightarrow> py_error + ('g \<times> analyzer)" where
  "generate_synthetic_data np g a =
     (let g0 = seed np 42;
          n_points = 1000;
          (zx, g1) = draws n_points (standard_normal np) g0;
          x_positions = map (\<lambda>c. c + 100) (np_cumsum (map (\<lambda>z. z * 0.5) zx));
          (zy, g2) = draws n_points (standard_normal np) g1;
          y_positions = map (\<lambda>c. c + 100) (np_cumsum (map (\<lambda>z. z * 0.5) zy));
          timestamps = date_range 0 n_points;
          (ids, g3) = draws n_points (choice_draw np [''turtle_a'', ''turtle_b'']) g2;
          (vel, g4) = draws n_points (gamma_draw np 2 0.5) g3;
          (its, g5) = draws n_points (choice_draw np [''approach'', ''avoid'', ''neutral'']) g4
      in case DataFrame timestamps ids x_positions y_positions vel its of
           Inl e \<Rightarrow> Inl e
         | Inr df \<Rightarrow> Inr (g5, a\<lparr>tracking_data := Some df\<rparr>))"

section \<open>Loading\<close>

text \<open>
  What \<^verbatim>\<open>pd.read_csv(data_path)\<close> does depends on the file system, so its outcome is
  an argument: a frame, FileNotFoundError, or any other exception, which
  \<^verbatim>\<open>load_data\<close> does not catch.
\<close>

datatype read_csv_result = Frame data_frame | FileNotFoundError | OtherException

definition load_data ::
  "'g np_random \<Rightarrow> 'g \<Rightarrow> analyzer \<Rightarrow> read_csv_result \<Rightarrow> py_error + ('g \<times> analyzer)" where
  "load_data np g a r =
     (case r of
        Frame df \<Rightarrow> Inr (g, a\<lparr>tracking_data := Some df\<rparr>)
      | FileNotFoundError \<Rightarrow> generate_synthetic_data np g a
      | OtherException \<Rightarrow> Inl ReadError)"

section \<open>Sequences of calls\<close>

text \<open>
  A caller may invoke the methods in any order. A call that raises leaves the analyzer and
  the generator state as they were before it (the only raises that can happen, shown below,
  come before any assignment).
\<close>

datatype call = Load_data read_csv_result | Generate_synthetic_data | Analyze_movement_patterns

definition step :: "'g np_random \<Rightarrow> call \<Rightarrow> 'g \<times> analyzer \<Rightarrow> 'g \<times> analyzer" where
  "step np c s =
     (case c of
        Load_data r \<Rightarrow>
          (case load_data np (fst s) (snd s) r of Inl e \<Rightarrow> s | Inr s' \<Rightarrow> s')
      | Generate_synthetic_data \<Rightarrow>
          (case generate_synthetic_data np (fst s) (snd s) of Inl e \<Rightarrow> s | Inr s' \<Rightarrow> s')
      | Analyze_movement_patterns \<Rightarrow>
          (case analyze_movement_patterns (snd s) of Inl e \<Rightarrow> s | Inr a' \<Rightarrow> (fst s, a')))"

definition exec :: "'g np_random \<Rightarrow> call list \<Rightarrow> 'g \<times> analyzer \<Rightarrow> 'g \<times> analyzer" where
  "exec np cs s = fold (step np) cs s"

section \<open>The specification's vocabulary\<close>

text \<open>The Euclidean distance of the positions of two samples.\<close>

definition euclid :: "sample \<Rightarrow> sample \<Rightarrow> real" where
  "euclid p q =
     sqrt ((x_position p - x_position q)\<^sup>2 + (y_position p - y_position q)\<^sup>2)"

text \<open>The three fields of the summary, as the keys the code writes.\<close>

definition summary_keys :: "string set" where
  "summary_keys = {''avg_distance'', ''min_distance'', ''interaction_frequency''}"

text \<open>The distinct subject ids among the stored samples, each with at least one sample.\<close>

definition subject_ids :: "data_frame \<Rightarrow> string list" where
  "subject_ids df = remdups (map turtle_id df)"

text \<open>
  The three values of the summary for a frame: the mean and the least of the distances of
  the aligned pairs, and the number of them below 10.
\<close>

definition summary_of :: "data_frame \<Rightarrow> string \<rightharpoonup> result_value" where
  "summary_of df =
     (let ds = map (\<lambda>(p, q). euclid p q)
                 (zip (select_turtle ''turtle_a'' df) (select_turtle ''turtle_b'' df))
      in [''avg_distance'' \<mapsto> PyFloat (sum_list ds / real (length ds)),
          ''min_distance'' \<mapsto> PyFloat (Min (set ds)),
          ''interaction_frequency'' \<mapsto> PyInt (int (length (filter (\<lambda>d. d < 10) ds)))])"

section \<open>Concrete inputs\<close>

definition row :: "string \<Rightarrow> real \<Rightarrow> real \<Rightarrow> sample" where
  "row name x y =
     \<lparr>timestamp = 0, turtle_id = name, x_position = x, y_position = y, velocity = 0,
      interaction_type = ''neutral''\<rparr>"

text \<open>A generator for examples: the state is a counter, every draw returns a fixed value.\<close>

definition counter_random :: "nat np_random" where
  "counter_random =
     \<lparr>seed = (\<lambda>s. s),
      standard_normal = (\<lambda>g. (1, Suc g)),
      gamma_draw = (\<lambda>k th g. (k * th, Suc g)),
      choice_draw = (\<lambda>xs g. (hd xs, Suc g))\<rparr>"

text \<open>Two aligned pairs, at distances 5 and 20, and a row of a third subject.\<close>

definition two_pairs :: data_frame where
  "two_pairs = [row ''turtle_a'' 0 0, row ''turtle_b'' 3 4, row ''turtle_b'' 20 0,
                row ''turtle_c'' 7 7, row ''turtle_a'' 0 0]"

text \<open>A frame with one subject, and a frame with two subjects under other ids.\<close>

definition only_a :: data_frame where
  "only_a = [row ''turtle_a'' 1 1, row ''turtle_a'' 2 2]"

definition other_ids :: data_frame where
  "other_ids = [row ''leatherback_1'' 0 0, row ''leatherback_2'' 3 4]"

text \<open>One sample each, at (0, 0) and (3, 4).\<close>

definition three_four_five :: data_frame where
  "three_four_five = [row ''turtle_a'' 0 0, row ''turtle_b'' 3 4]"

text \<open>One sample of the first subject against two of the second.\<close>

definition one_against_many :: data_frame where
  "one_against_many = [row ''turtle_b'' 1 13, row ''turtle_a'' 1 1, row ''turtle_b'' 50 50]"

text \<open>Two aligned pairs, each exactly 10 apart.\<close>

definition ten_apart :: data_frame where
  "ten_apart = [row ''turtle_a'' 0 0, row ''turtle_b'' 10 0,
                row ''turtle_a'' 1 1, row ''turtle_b'' 7 9]"

text \<open>
  Two frames with int64 position columns, one sample each: the subjects \<open>2 ^ 32\<close> apart, and
  3037000500 apart.
\<close>

definition far_apart_int64 :: "int64_row list" where
  "far_apart_int64 =
     [\<lparr>subject = ''turtle_a'', x_int64 = 0, y_int64 = 0\<rparr>,
      \<lparr>subject = ''turtle_b'', x_int64 = 4294967296, y_int64 = 0\<rparr>]"

definition wrap_negative_int64 :: "int64_row list" where
  "wrap_negative_int64 =
     [\<lparr>subject = ''turtle_a'', x_int64 = 0, y_int64 = 0\<rparr>,
      \<lparr>subject = ''turtle_b'', x_int64 = 3037000500, y_int64 = 0\<rparr>]"

section \<open>The generator in the specification's words\<close>

text \<open>
  The five arrays of draws, named in the order in which the generator takes them from the
  state seeded with 42; each is the pair of the array and the state after it.
\<close>

definition normal_x :: "'g np_random \<Rightarrow> real list \<times> 'g" where
  "normal_x np = draws 1000 (standard_normal np) (seed np 42)"

definition normal_y :: "'g np_random \<Rightarrow> real list \<times> 'g" where
  "normal_y np = draws 1000 (standard_normal np) (snd (normal_x np))"

definition id_draws :: "'g np_random \<Rightarrow> string list \<times> 'g" where
  "id_draws np = draws 1000 (choice_draw np [''turtle_a'', ''turtle_b'']) (snd (normal_y np))"

definition velocity_draws :: "'g np_random \<Rightarrow> real list \<times> 'g" where
  "velocity_draws np = draws 1000 (gamma_draw np 2 0.5) (snd (id_draws np))"

definition interaction_draws :: "'g np_random \<Rightarrow> string list \<times> 'g" where
  "interaction_draws np =
     draws 1000 (choice_draw np [''approach'', ''avoid'', ''neutral'']) (snd (velocity_draws np))"

text \<open>
  Row \<open>i\<close> as the specification describes it: the timestamp \<open>i\<close> minutes after the start,
  each coordinate 100 plus the sum of the first \<open>i + 1\<close> half-scaled normal draws, and the id,
  velocity and interaction type drawn at index \<open>i\<close>.
\<close>

definition synthetic_row :: "'g np_random \<Rightarrow> nat \<Rightarrow> sample" where
  "synthetic_row np i =
     \<lparr>timestamp = int i,
      turtle_id = fst (id_draws np) ! i,
      x_position = (\<Sum>j\<le>i. fst (normal_x np) ! j * 0.5) + 100,
      y_position = (\<Sum>j\<le>i. fst (normal_y np) ! j * 0.5) + 100,
      velocity = fst (velocity_draws np) ! i,
      interaction_type = fst (interaction_draws np) ! i\<rparr>"

text \<open>
  \<^verbatim>\<open>main\<close> without a data path, up to the analysis: generate, then analyze (plotting and
  export are outside the model).
\<close>

definition generate_then_analyze ::
  "'g np_random \<Rightarrow> 'g \<Rightarrow> analyzer \<Rightarrow> py_error + ('g \<times> analyzer)" where
  "generate_then_analyze np g a =
     (case generate_synthetic_data np g a of
        Inl e \<Rightarrow> Inl e
      | Inr s \<Rightarrow>
          (case analyze_movement_patterns (snd s) of
             Inl e \<Rightarrow> Inl e
           | Inr a' \<Rightarrow> Inr (fst s, a')))"

text \<open>
  Four calls on a new analyzer: load a frame with both subjects, analyze, load a frame with
  one subject, analyze.
\<close>

definition stale_calls :: "call list" where
  "stale_calls = [Load_data (Frame two_pairs), Analyze_movement_patterns,
                  Load_data (Frame only_a), Analyze_movement_patterns]"

text \<open>The results dictionary holds none of the three keys or all of them.\<close>

definition all_or_nothing :: "analyzer \<Rightarrow> bool" where
  "all_or_nothing a \<longleftrightarrow>
     dom (analysis_results a) = {} \<or> dom (analysis_results a) = summary_keys"

section \<open>Properties of the loop and of numpy's reductions\<close>

lemma fold_append_map: "fold (\<lambda>i acc. acc @ [f i]) is acc0 = acc0 @ map f is"
  by (induction "is" arbitrary: acc0) simp_all

lemma collect_distances_map:
  "collect_distances ta tb = map (dist_at ta tb) [0 ..< min (length ta) (length tb)]"
  by (simp add: collect_distances_def fold_append_map)

lemma collect_distances_length:
  "length (collect_distances ta tb) = min (length ta) (length tb)"
  by (simp add: collect_distances_map)

lemma dist_at_euclid: "dist_at ta tb i = euclid (ta ! i) (tb ! i)"
  by (simp add: dist_at_def euclid_def)

lemma collect_distances_nonempty:
  "ta \<noteq> [] \<Longrightarrow> tb \<noteq> [] \<Longrightarrow> collect_distances ta tb \<noteq> []"
  by (simp add: collect_distances_map)

lemma np_min_nonempty: "ds \<noteq> [] \<Longrightarrow> np_min ds = Inr (PyFloat (Min (set ds)))"
  by (cases ds) (simp_all add: Min.set_eq_fold [symmetric])

lemma np_mean_nonempty: "ds \<noteq> [] \<Longrightarrow> np_mean ds = PyFloat (sum_list ds / real (length ds))"
  by (simp add: np_mean_def)

lemma sum_list_distances:
  "sum_list (collect_distances ta tb) =
     (\<Sum>i<min (length ta) (length tb). euclid (ta ! i) (tb ! i))"
  by (simp add: collect_distances_map interv_sum_list_conv_sum_set_nat atLeast0LessThan
      dist_at_euclid)

lemma count_distances:
  "length (filter (\<lambda>d. d < c) (collect_distances ta tb)) =
     card {i. i < min (length ta) (length tb) \<and> euclid (ta ! i) (tb ! i) < c}"
  by (simp add: length_filter_conv_card collect_distances_map dist_at_euclid cong: conj_cong)

section \<open>What one call of the analysis does\<close>

text \<open>
  With both series non-empty the call returns normally and writes all three keys, computed
  from the list of distances; the ValueError of \<^verbatim>\<open>np.min\<close> and the NaN of
  \<^verbatim>\<open>np.mean\<close> cannot occur.
\<close>

lemma analyze_populated:
  assumes "tracking_data a = Some df"
    and "select_turtle ''turtle_a'' df \<noteq> []" and "select_turtle ''turtle_b'' df \<noteq> []"
  shows "analyze_movement_patterns a =
     Inr (a\<lparr>analysis_results :=
       (analysis_results a)
         (''avg_distance'' \<mapsto>
            PyFloat (sum_list (collect_distances (select_turtle ''turtle_a'' df)
                        (select_turtle ''turtle_b'' df)) /
               real (length (collect_distances (select_turtle ''turtle_a'' df)
                        (select_turtle ''turtle_b'' df)))),
          ''min_distance'' \<mapsto>
            PyFloat (Min (set (collect_distances (select_turtle ''turtle_a'' df)
                        (select_turtle ''turtle_b'' df)))),
          ''interaction_frequency'' \<mapsto>
            PyInt (int (length (filter (\<lambda>d. d < 10)
              (collect_distances (select_turtle ''turtle_a'' df)
                 (select_turtle ''turtle_b'' df))))))\<rparr>)"
proof -
  have ne: "collect_distances (select_turtle ''turtle_a'' df) (select_turtle ''turtle_b'' df) \<noteq> []"
    using assms(2,3) by (rule collect_distances_nonempty)
  show ?thesis
    unfolding analyze_movement_patterns_def
    using assms ne by (simp add: Let_def np_min_nonempty np_mean_nonempty)
qed

text \<open>With one of the two series empty the call returns normally and changes nothing.\<close>

lemma analyze_unchanged:
  assumes "tracking_data a = Some df"
    and "select_turtle ''turtle_a'' df = [] \<or> select_turtle ''turtle_b'' df = []"
  shows "analyze_movement_patterns a = Inr a"
  unfolding analyze_movement_patterns_def using assms by (auto simp: Let_def)

text \<open>Before any load the attribute is missing and the call raises.\<close>

lemma analyze_not_loaded:
  "tracking_data a = None \<Longrightarrow> analyze_movement_patterns a = Inl AttributeError"
  by (simp add: analyze_movement_patterns_def)

section \<open>Claims\<close>

text \<open>
  On float64 position columns: for every loaded frame in which both the \<^verbatim>\<open>turtle_a\<close>
  series and the \<^verbatim>\<open>turtle_b\<close> series are non-empty, the analysis returns normally; with
  \<open>k\<close> the smaller of the two lengths and the distance at position \<open>i\<close> the Euclidean
  distance of the \<open>i\<close>-th sample of each series (the series keep the order of the frame),
  the stored \<^verbatim>\<open>avg_distance\<close> is the sum of the \<open>k\<close> distances divided by \<open>k\<close>, and the
  stored \<^verbatim>\<open>interaction_frequency\<close> is the number of positions whose distance is
  strictly below 10.
\<close>

lemma analyze_mean_and_proximity:
  fixes a :: analyzer and df :: data_frame
  defines "sa \<equiv> select_turtle ''turtle_a'' df"
      and "sb \<equiv> select_turtle ''turtle_b'' df"
  defines "k \<equiv> min (length sa) (length sb)"
  assumes loaded: "tracking_data a = Some df"
      and nonempty: "sa \<noteq> []" "sb \<noteq> []"
  shows "\<exists>a'. analyze_movement_patterns a = Inr a' \<and>
           analysis_results a' ''avg_distance'' =
             Some (PyFloat ((\<Sum>i<k. euclid (sa ! i) (sb ! i)) / real k)) \<and>
           analysis_results a' ''interaction_frequency'' =
             Some (PyInt (int (card {i. i < k \<and> euclid (sa ! i) (sb ! i) < 10})))"
proof -
  have "analysis_results a' ''avg_distance'' =
             Some (PyFloat ((\<Sum>i<k. euclid (sa ! i) (sb ! i)) / real k)) \<and>
           analysis_results a' ''interaction_frequency'' =
             Some (PyInt (int (card {i. i < k \<and> euclid (sa ! i) (sb ! i) < 10})))"
    if "analyze_movement_patterns a = Inr a'" for a'
    using that nonempty analyze_populated [OF loaded]
    unfolding sa_def sb_def k_def
    by (auto simp: sum_list_distances count_distances collect_distances_length)
  moreover have "\<exists>a'. analyze_movement_patterns a = Inr a'"
    using nonempty analyze_populated [OF loaded] unfolding sa_def sb_def by blast
  ultimately show ?thesis by blast
qed

lemma analyze_mean_and_proximity_example:
  "\<exists>a'. analyze_movement_patterns
           (init ''chelonia'' ''24h''\<lparr>tracking_data := Some two_pairs\<rparr>) = Inr a' \<and>
     analysis_results a' ''avg_distance'' = Some (PyFloat (25 / 2)) \<and>
     analysis_results a' ''interaction_frequency'' = Some (PyInt 1)"
proof -
  have sa: "select_turtle ''turtle_a'' two_pairs = [row ''turtle_a'' 0 0, row ''turtle_a'' 0 0]"
    by (simp add: two_pairs_def select_turtle_def row_def)
  have sb: "select_turtle ''turtle_b'' two_pairs = [row ''turtle_b'' 3 4, row ''turtle_b'' 20 0]"
    by (simp add: two_pairs_def select_turtle_def row_def)
  have e0: "euclid (row ''turtle_a'' 0 0) (row ''turtle_b'' 3 4) = 5"
    by (simp add: euclid_def row_def real_sqrt_eq_iff [of _ 5, simplified])
  have e1: "euclid (row ''turtle_a'' 0 0) (row ''turtle_b'' 20 0) = 20"
    by (simp add: euclid_def row_def)
  have c: "{i. i < Suc (Suc 0) \<and> euclid ([row ''turtle_a'' 0 0, row ''turtle_a'' 0 0] ! i)
              ([row ''turtle_b'' 3 4, row ''turtle_b'' 20 0] ! i) < 10} = {0}"
    by (auto simp: e0 e1 less_Suc_eq)
  show ?thesis
    using analyze_mean_and_proximity
      [of "init ''chelonia'' ''24h''\<lparr>tracking_data := Some two_pairs\<rparr>" two_pairs]
    by (simp add: sa sb e0 e1 c)
qed


lemma negative_wrapped_square: "sint (((0::64 word) - 3037000500)\<^sup>2) < 0"
  by (simp add: sint_uint)

text \<open>
  C1 fails on int64 position columns, where the squares wrap around. With one sample of
  \<^verbatim>\<open>turtle_a\<close> at (0, 0) and one of \<^verbatim>\<open>turtle_b\<close> at (4294967296, 0), both series
  non-empty, the difference squared is \<open>2 ^ 64\<close>, which is 0 in int64: the analysis stores
  the mean 0, the minimum 0 and the count 1, while the Euclidean distance of the two positions
  is 4294967296, the mean of the distances 4294967296 and the number of distances below 10
  is 0. At (3037000500, 0) the square wraps to a negative number, whose root is NaN: the
  stored mean and minimum are NaN.
\<close>

theorem int64_square_wraps:
  "analyze_int64 Map.empty far_apart_int64 =
     Inr [''avg_distance'' \<mapsto> PyFloat 0, ''min_distance'' \<mapsto> PyFloat 0,
          ''interaction_frequency'' \<mapsto> PyInt 1] \<and>
   euclid (row ''turtle_a'' 0 0) (row ''turtle_b'' 4294967296 0) = 4294967296 \<and>
   analyze_int64 Map.empty wrap_negative_int64 =
     Inr [''avg_distance'' \<mapsto> PyNaN, ''min_distance'' \<mapsto> PyNaN,
          ''interaction_frequency'' \<mapsto> PyInt 0]"
proof (intro conjI)
  show "analyze_int64 Map.empty far_apart_int64 =
     Inr [''avg_distance'' \<mapsto> PyFloat 0, ''min_distance'' \<mapsto> PyFloat 0,
          ''interaction_frequency'' \<mapsto> PyInt 1]"
    by (simp add: analyze_int64_def far_apart_int64_def select_turtle_int64_def
        collect_distances_int64_def dist_at_int64_def np_sqrt_int64_def
        np_mean_floats_def np_min_floats_def np_mean_def Let_def)
  show "euclid (row ''turtle_a'' 0 0) (row ''turtle_b'' 4294967296 0) = 4294967296"
    by (simp add: euclid_def row_def)
  show "analyze_int64 Map.empty wrap_negative_int64 =
     Inr [''avg_distance'' \<mapsto> PyNaN, ''min_distance'' \<mapsto> PyNaN,
          ''interaction_frequency'' \<mapsto> PyInt 0]"
    using negative_wrapped_square
    by (simp add: analyze_int64_def wrap_negative_int64_def select_turtle_int64_def
        collect_distances_int64_def dist_at_int64_def np_sqrt_int64_def
        np_mean_floats_def np_min_floats_def np_mean_def Let_def)
qed

text \<open>
  C3. For every loaded frame, the empty one included: when the smaller of the two series
  lengths is 0, the analysis raises nothing and returns with the analyzer, and so its results
  dictionary, exactly as it was.
\<close>

theorem analyze_noop_without_pairs:
  assumes "tracking_data a = Some df"
      and "min (length (select_turtle ''turtle_a'' df))
             (length (select_turtle ''turtle_b'' df)) = 0"
  shows "analyze_movement_patterns a = Inr a"
proof -
  from assms(2) have "select_turtle ''turtle_a'' df = [] \<or> select_turtle ''turtle_b'' df = []"
    by (auto simp: min_def split: if_splits)
  with assms(1) show ?thesis by (rule analyze_unchanged)
qed

theorem analyze_noop_without_pairs_witness:
  "analyze_movement_patterns (init ''chelonia'' ''24h''\<lparr>tracking_data := Some []\<rparr>) =
     Inr (init ''chelonia'' ''24h''\<lparr>tracking_data := Some []\<rparr>) \<and>
   analyze_movement_patterns (init ''chelonia'' ''24h''\<lparr>tracking_data := Some only_a\<rparr>) =
     Inr (init ''chelonia'' ''24h''\<lparr>tracking_data := Some only_a\<rparr>)"
  using analyze_noop_without_pairs [of "init ''chelonia'' ''24h''\<lparr>tracking_data := Some []\<rparr>" "[]"]
    analyze_noop_without_pairs [of "init ''chelonia'' ''24h''\<lparr>tracking_data := Some only_a\<rparr>" only_a]
  by (simp add: select_turtle_def only_a_def row_def)

text \<open>The series depend on the rows of the two literal ids only.\<close>

lemma select_turtle_filter:
  "P name \<Longrightarrow> select_turtle name (filter (\<lambda>r. P (turtle_id r)) df) = select_turtle name df"
  by (induction df) (auto simp: select_turtle_def)

lemma analyze_depends_on_series:
  assumes "tracking_data a1 = Some df1" and "tracking_data a2 = Some df2"
    and "select_turtle ''turtle_a'' df1 = select_turtle ''turtle_a'' df2"
    and "select_turtle ''turtle_b'' df1 = select_turtle ''turtle_b'' df2"
    and "analysis_results a1 = analysis_results a2"
  shows "map_sum id analysis_results (analyze_movement_patterns a1) =
         map_sum id analysis_results (analyze_movement_patterns a2)"
  unfolding analyze_movement_patterns_def
  using assms by (simp add: Let_def split: sum.splits)

text \<open>
  C10. The two series are selected by the literal ids \<^verbatim>\<open>turtle_a\<close> and
  \<^verbatim>\<open>turtle_b\<close>: removing every row with another id from a loaded frame changes neither
  the outcome of the analysis nor the dictionary it leaves; and when every row of the frame
  carries another id, whatever the number of distinct subjects, the analysis returns with
  the analyzer unchanged.
\<close>

theorem analyze_ignores_other_ids:
  assumes "tracking_data a = Some df"
  shows "map_sum id analysis_results
           (analyze_movement_patterns
              (a\<lparr>tracking_data :=
                   Some (filter (\<lambda>r. turtle_id r \<in> {''turtle_a'', ''turtle_b''}) df)\<rparr>)) =
         map_sum id analysis_results (analyze_movement_patterns a) \<and>
         ((\<forall>r \<in> set df. turtle_id r \<notin> {''turtle_a'', ''turtle_b''}) \<longrightarrow>
            analyze_movement_patterns a = Inr a)"
proof
  let ?df' = "filter (\<lambda>r. turtle_id r \<in> {''turtle_a'', ''turtle_b''}) df"
  have sa: "select_turtle ''turtle_a'' ?df' = select_turtle ''turtle_a'' df"
    by (rule select_turtle_filter [of "\<lambda>n. n \<in> {''turtle_a'', ''turtle_b''}"]) simp
  have sb: "select_turtle ''turtle_b'' ?df' = select_turtle ''turtle_b'' df"
    by (rule select_turtle_filter [of "\<lambda>n. n \<in> {''turtle_a'', ''turtle_b''}"]) simp
  have td: "tracking_data (a\<lparr>tracking_data := Some ?df'\<rparr>) = Some ?df'"
    and ar: "analysis_results (a\<lparr>tracking_data := Some ?df'\<rparr>) = analysis_results a"
    by simp_all
  show "map_sum id analysis_results
           (analyze_movement_patterns (a\<lparr>tracking_data := Some ?df'\<rparr>)) =
         map_sum id analysis_results (analyze_movement_patterns a)"
    by (rule analyze_depends_on_series [OF td assms sa sb ar])
next
  show "(\<forall>r \<in> set df. turtle_id r \<notin> {''turtle_a'', ''turtle_b''}) \<longrightarrow>
            analyze_movement_patterns a = Inr a"
  proof
    assume other: "\<forall>r \<in> set df. turtle_id r \<notin> {''turtle_a'', ''turtle_b''}"
    then have "select_turtle ''turtle_a'' df = []"
      by (auto simp: select_turtle_def filter_empty_conv)
    with assms show "analyze_movement_patterns a = Inr a"
      by (simp add: analyze_unchanged)
  qed
qed

theorem analyze_ignores_other_ids_witness:
  "length (subject_ids other_ids) = 2 \<and>
   analyze_movement_patterns (init ''chelonia'' ''24h''\<lparr>tracking_data := Some other_ids\<rparr>) =
     Inr (init ''chelonia'' ''24h''\<lparr>tracking_data := Some other_ids\<rparr>) \<and>
   analysis_results (init ''chelonia'' ''24h''\<lparr>tracking_data := Some other_ids\<rparr>) = Map.empty"
  using analyze_ignores_other_ids [of "init ''chelonia'' ''24h''\<lparr>tracking_data := Some other_ids\<rparr>" other_ids]
  by (simp add: other_ids_def row_def subject_ids_def init_def)

text \<open>
  C8. On loaded data the analysis returns normally, and a second call right after it returns
  the very state the first call produced: the same results dictionary and no other change.
\<close>

theorem analyze_twice:
  assumes "tracking_data a = Some df"
  shows "\<exists>a'. analyze_movement_patterns a = Inr a' \<and> analyze_movement_patterns a' = Inr a'"
proof (cases "select_turtle ''turtle_a'' df = [] \<or> select_turtle ''turtle_b'' df = []")
  case True
  with assms have "analyze_movement_patterns a = Inr a" by (rule analyze_unchanged)
  then show ?thesis by simp
next
  case False
  then have ne: "select_turtle ''turtle_a'' df \<noteq> []" "select_turtle ''turtle_b'' df \<noteq> []"
    by simp_all
  define a' where "a' = (case analyze_movement_patterns a of Inr x \<Rightarrow> x | Inl e \<Rightarrow> a)"
  have first: "analyze_movement_patterns a = Inr a'"
    unfolding a'_def using analyze_populated [OF assms ne] by simp
  have loaded': "tracking_data a' = Some df"
    unfolding a'_def using analyze_populated [OF assms ne] assms by simp
  have "analyze_movement_patterns a' = Inr a'"
    using analyze_populated [OF loaded' ne] 
    unfolding a'_def using analyze_populated [OF assms ne] by simp
  with first show ?thesis by blast
qed

theorem analyze_twice_witness:
  "\<exists>a'. analyze_movement_patterns (init ''chelonia'' ''24h''\<lparr>tracking_data := Some two_pairs\<rparr>) = Inr a' \<and>
     analyze_movement_patterns a' = Inr a' \<and> analysis_results a' \<noteq> Map.empty"
proof -
  obtain a' where 1: "analyze_movement_patterns (init ''chelonia'' ''24h''\<lparr>tracking_data := Some two_pairs\<rparr>) = Inr a'"
    and 2: "analyze_movement_patterns a' = Inr a'"
    using analyze_twice [of "init ''chelonia'' ''24h''\<lparr>tracking_data := Some two_pairs\<rparr>" two_pairs]
    by auto
  have "select_turtle ''turtle_a'' two_pairs \<noteq> []" "select_turtle ''turtle_b'' two_pairs \<noteq> []"
    by (simp_all add: two_pairs_def select_turtle_def row_def)
  then have "analysis_results a' ''avg_distance'' \<noteq> None"
    using 1 analyze_populated [of "init ''chelonia'' ''24h''\<lparr>tracking_data := Some two_pairs\<rparr>" two_pairs]
    by auto
  then have "analysis_results a' \<noteq> Map.empty" by auto
  with 1 2 show ?thesis by blast
qed


text \<open>With one aligned pair the list of distances has one element.\<close>

lemma single_pair:
  assumes loaded: "tracking_data a = Some df"
    and k1: "min (length (select_turtle ''turtle_a'' df))
               (length (select_turtle ''turtle_b'' df)) = 1"
  shows "analyze_movement_patterns a =
     Inr (a\<lparr>analysis_results :=
       (analysis_results a)
         (''avg_distance'' \<mapsto>
            PyFloat (euclid (select_turtle ''turtle_a'' df ! 0) (select_turtle ''turtle_b'' df ! 0)),
          ''min_distance'' \<mapsto>
            PyFloat (euclid (select_turtle ''turtle_a'' df ! 0) (select_turtle ''turtle_b'' df ! 0)),
          ''interaction_frequency'' \<mapsto>
            PyInt (if euclid (select_turtle ''turtle_a'' df ! 0) (select_turtle ''turtle_b'' df ! 0) < 10
                   then 1 else 0))\<rparr>)"
proof -
  from k1 have ne: "select_turtle ''turtle_a'' df \<noteq> []" "select_turtle ''turtle_b'' df \<noteq> []"
    by auto
  have ds: "collect_distances (select_turtle ''turtle_a'' df) (select_turtle ''turtle_b'' df) =
      [euclid (select_turtle ''turtle_a'' df ! 0) (select_turtle ''turtle_b'' df ! 0)]"
    by (simp add: collect_distances_map k1 dist_at_euclid)
  show ?thesis
    by (simp add: analyze_populated [OF loaded ne] ds)
qed

lemma euclid_345: "euclid (row n 0 0) (row m 3 4) = 5"
  by (simp add: euclid_def row_def real_sqrt_eq_iff [of _ 5, simplified])

text \<open>
  C6. With one sample of \<^verbatim>\<open>turtle_a\<close> at (0, 0) and one of \<^verbatim>\<open>turtle_b\<close> at
  (3, 4) the analysis stores \<^verbatim>\<open>avg_distance\<close> 5, \<^verbatim>\<open>min_distance\<close> 5 and
  \<^verbatim>\<open>interaction_frequency\<close> 1; and whenever the smaller series length is 1, the stored
  \<^verbatim>\<open>avg_distance\<close> and \<^verbatim>\<open>min_distance\<close> both equal the one distance computed,
  that of the first sample of each series.
\<close>

theorem single_pair_summary:
  "(\<exists>a'. analyze_movement_patterns (init sp du\<lparr>tracking_data := Some three_four_five\<rparr>) = Inr a' \<and>
      analysis_results a' ''avg_distance'' = Some (PyFloat 5) \<and>
      analysis_results a' ''min_distance'' = Some (PyFloat 5) \<and>
      analysis_results a' ''interaction_frequency'' = Some (PyInt 1)) \<and>
   (\<forall>(a::analyzer) df. tracking_data a = Some df \<and>
       min (length (select_turtle ''turtle_a'' df)) (length (select_turtle ''turtle_b'' df)) = 1 \<longrightarrow>
       (\<exists>a'. analyze_movement_patterns a = Inr a' \<and>
          analysis_results a' ''avg_distance'' =
            Some (PyFloat (euclid (select_turtle ''turtle_a'' df ! 0)
                                  (select_turtle ''turtle_b'' df ! 0))) \<and>
          analysis_results a' ''min_distance'' =
            Some (PyFloat (euclid (select_turtle ''turtle_a'' df ! 0)
                                  (select_turtle ''turtle_b'' df ! 0)))))"
proof (intro conjI allI impI)
  have sa: "select_turtle ''turtle_a'' three_four_five = [row ''turtle_a'' 0 0]"
    and sb: "select_turtle ''turtle_b'' three_four_five = [row ''turtle_b'' 3 4]"
    by (simp_all add: three_four_five_def select_turtle_def row_def)
  have "tracking_data (init sp du\<lparr>tracking_data := Some three_four_five\<rparr>) = Some three_four_five"
    by simp
  from single_pair [OF this]
  show "\<exists>a'. analyze_movement_patterns (init sp du\<lparr>tracking_data := Some three_four_five\<rparr>) = Inr a' \<and>
      analysis_results a' ''avg_distance'' = Some (PyFloat 5) \<and>
      analysis_results a' ''min_distance'' = Some (PyFloat 5) \<and>
      analysis_results a' ''interaction_frequency'' = Some (PyInt 1)"
    by (simp add: sa sb euclid_345)
next
  fix a :: analyzer and df :: data_frame
  assume "tracking_data a = Some df \<and>
       min (length (select_turtle ''turtle_a'' df)) (length (select_turtle ''turtle_b'' df)) = 1"
  then show "\<exists>a'. analyze_movement_patterns a = Inr a' \<and>
          analysis_results a' ''avg_distance'' =
            Some (PyFloat (euclid (select_turtle ''turtle_a'' df ! 0)
                                  (select_turtle ''turtle_b'' df ! 0))) \<and>
          analysis_results a' ''min_distance'' =
            Some (PyFloat (euclid (select_turtle ''turtle_a'' df ! 0)
                                  (select_turtle ''turtle_b'' df ! 0)))"
    by (simp add: single_pair)
qed

theorem single_pair_summary_witness:
  "\<exists>a'. analyze_movement_patterns (init ''chelonia'' ''24h''\<lparr>tracking_data := Some one_against_many\<rparr>) = Inr a' \<and>
      analysis_results a' ''avg_distance'' = Some (PyFloat 12) \<and>
      analysis_results a' ''min_distance'' = Some (PyFloat 12)"
proof -
  have sa: "select_turtle ''turtle_a'' one_against_many = [row ''turtle_a'' 1 1]"
    and sb: "select_turtle ''turtle_b'' one_against_many = [row ''turtle_b'' 1 13, row ''turtle_b'' 50 50]"
    by (simp_all add: one_against_many_def select_turtle_def row_def)
  have e: "euclid (row ''turtle_a'' 1 1) (row ''turtle_b'' 1 13) = 12"
    by (simp add: euclid_def row_def)
  from single_pair_summary [of "''chelonia''" "''24h''"]
  have "tracking_data (init ''chelonia'' ''24h''\<lparr>tracking_data := Some one_against_many\<rparr>) = Some one_against_many \<and>
       min (length (select_turtle ''turtle_a'' one_against_many)) (length (select_turtle ''turtle_b'' one_against_many)) = 1 \<longrightarrow>
       (\<exists>a'. analyze_movement_patterns (init ''chelonia'' ''24h''\<lparr>tracking_data := Some one_against_many\<rparr>) = Inr a' \<and>
          analysis_results a' ''avg_distance'' =
            Some (PyFloat (euclid (select_turtle ''turtle_a'' one_against_many ! 0)
                                  (select_turtle ''turtle_b'' one_against_many ! 0))) \<and>
          analysis_results a' ''min_distance'' =
            Some (PyFloat (euclid (select_turtle ''turtle_a'' one_against_many ! 0)
                                  (select_turtle ''turtle_b'' one_against_many ! 0))))"
    by blast
  then show ?thesis by (simp add: sa sb e)
qed

lemma euclid_ten_a: "euclid (row n 0 0) (row m 10 0) = 10"
  by (simp add: euclid_def row_def)

lemma euclid_ten_b: "euclid (row n 1 1) (row m 7 9) = 10"
  by (simp add: euclid_def row_def real_sqrt_eq_iff [of _ 10, simplified])

text \<open>
  C7. The threshold is strict: the stored count together with the number of aligned pairs
  whose distance is exactly 10 never exceeds the number of pairs, so a pair at exactly 10 is
  not counted; and when every aligned pair is exactly 10 apart the stored count is 0.
\<close>

theorem proximity_threshold_strict:
  fixes a :: analyzer and df :: data_frame
  defines "sa \<equiv> select_turtle ''turtle_a'' df"
      and "sb \<equiv> select_turtle ''turtle_b'' df"
  defines "k \<equiv> min (length sa) (length sb)"
  assumes loaded: "tracking_data a = Some df"
      and nonempty: "sa \<noteq> []" "sb \<noteq> []"
  shows "\<exists>a' n. analyze_movement_patterns a = Inr a' \<and>
           analysis_results a' ''interaction_frequency'' = Some (PyInt (int n)) \<and>
           n + card {i. i < k \<and> euclid (sa ! i) (sb ! i) = 10} \<le> k \<and>
           ((\<forall>i<k. euclid (sa ! i) (sb ! i) = 10) \<longrightarrow> n = 0)"
proof -
  let ?lt = "{i. i < k \<and> euclid (sa ! i) (sb ! i) < 10}"
  let ?eq = "{i. i < k \<and> euclid (sa ! i) (sb ! i) = 10}"
  have res: "analyze_movement_patterns a = Inr (a\<lparr>analysis_results :=
       (analysis_results a)
         (''avg_distance'' \<mapsto> PyFloat (sum_list (collect_distances sa sb) /
               real (length (collect_distances sa sb))),
          ''min_distance'' \<mapsto> PyFloat (Min (set (collect_distances sa sb))),
          ''interaction_frequency'' \<mapsto> PyInt (int (card ?lt)))\<rparr>)"
    using analyze_populated [OF loaded] nonempty
    unfolding sa_def sb_def k_def by (simp add: count_distances)
  have "finite (?lt \<union> ?eq)" by simp
  have "?lt \<inter> ?eq = {}" by auto
  then have "card ?lt + card ?eq = card (?lt \<union> ?eq)"
    by (simp add: card_Un_disjoint)
  also have "\<dots> \<le> card {..<k}"
    by (rule card_mono) auto
  finally have bound: "card ?lt + card ?eq \<le> k" by simp
  have zero: "card ?lt = 0" if "\<forall>i<k. euclid (sa ! i) (sb ! i) = 10"
  proof -
    from that have "?lt = {}" by auto
    then show ?thesis by simp
  qed
  from res bound zero show ?thesis
    by (intro exI [of _ "a\<lparr>analysis_results := _\<rparr>"] exI [of _ "card ?lt"]) auto
qed

theorem proximity_threshold_strict_witness:
  "\<exists>a'. analyze_movement_patterns
           (init ''chelonia'' ''24h''\<lparr>tracking_data := Some ten_apart\<rparr>) = Inr a' \<and>
     analysis_results a' ''interaction_frequency'' = Some (PyInt 0)"
proof -
  have sa: "select_turtle ''turtle_a'' ten_apart = [row ''turtle_a'' 0 0, row ''turtle_a'' 1 1]"
    and sb: "select_turtle ''turtle_b'' ten_apart = [row ''turtle_b'' 10 0, row ''turtle_b'' 7 9]"
    by (simp_all add: ten_apart_def select_turtle_def row_def)
  have all: "\<forall>i<Suc (Suc 0). euclid ([row ''turtle_a'' 0 0, row ''turtle_a'' 1 1] ! i)
                ([row ''turtle_b'' 10 0, row ''turtle_b'' 7 9] ! i) = 10"
    by (auto simp: less_Suc_eq euclid_ten_a euclid_ten_b)
  from proximity_threshold_strict
      [of "init ''chelonia'' ''24h''\<lparr>tracking_data := Some ten_apart\<rparr>" ten_apart]
  obtain a' n where
    "analyze_movement_patterns (init ''chelonia'' ''24h''\<lparr>tracking_data := Some ten_apart\<rparr>) = Inr a'"
    "analysis_results a' ''interaction_frequency'' = Some (PyInt (int n))"
    "(\<forall>i<Suc (Suc 0). euclid ([row ''turtle_a'' 0 0, row ''turtle_a'' 1 1] ! i)
                ([row ''turtle_b'' 10 0, row ''turtle_b'' 7 9] ! i) = 10) \<longrightarrow> n = 0"
    by (auto simp: sa sb)
  with all show ?thesis by auto
qed


section \<open>Properties of the generator\<close>

lemma draws_length: "length (fst (draws n f g)) = n"
  by (induction n arbitrary: g) (simp_all add: split_beta Let_def)

lemma cumsum_from_length: "length (cumsum_from s xs) = length xs"
  by (induction xs arbitrary: s) simp_all

lemma cumsum_from_nth:
  "i < length xs \<Longrightarrow> cumsum_from s xs ! i = s + (\<Sum>j\<le>i. xs ! j)"
proof (induction xs arbitrary: s i)
  case Nil
  then show ?case by simp
next
  case (Cons x xs)
  show ?case
  proof (cases i)
    case 0
    then show ?thesis by simp
  next
    case (Suc m)
    with Cons.prems have m: "m < length xs" by simp
    have "(\<Sum>j\<le>Suc m. (x # xs) ! j) = x + (\<Sum>j\<le>m. xs ! j)"
      by (simp add: sum.atMost_Suc_shift del: sum.atMost_Suc)
    with Cons.IH [OF m] Suc show ?thesis by (simp add: add.assoc)
  qed
qed

lemma np_cumsum_nth:
  "i < length xs \<Longrightarrow> np_cumsum (map f xs) ! i = (\<Sum>j\<le>i. f (xs ! j))"
  by (simp add: np_cumsum_def cumsum_from_nth)

lemma offset_cumsum_nth:
  "i < length xs \<Longrightarrow>
     map (\<lambda>c. c + b) (np_cumsum (map f xs)) ! i = (\<Sum>j\<le>i. f (xs ! j)) + b"
  by (simp add: np_cumsum_def cumsum_from_nth cumsum_from_length)

lemma draws_elements:
  "(\<And>g. P (fst (f g))) \<Longrightarrow> v \<in> set (fst (draws n f g)) \<Longrightarrow> P v"
  by (induction n arbitrary: g) (auto simp: split_beta Let_def)

lemma DataFrame_rows:
  assumes "length ids = n" "length xs = n" "length ys = n" "length vs = n" "length its = n"
    and "length ts = n"
  shows "DataFrame ts ids xs ys vs its =
     Inr (map (\<lambda>i. \<lparr>timestamp = ts ! i, turtle_id = ids ! i, x_position = xs ! i,
                     y_position = ys ! i, velocity = vs ! i,
                     interaction_type = its ! i\<rparr>) [0 ..< n])"
  unfolding DataFrame_def using assms by simp

lemma date_range_length: "length (date_range start n) = n"
  by (simp add: date_range_def)

lemma date_range_nth: "i < n \<Longrightarrow> date_range start n ! i = start + int i"
  by (simp add: date_range_def)

lemma np_cumsum_length: "length (np_cumsum xs) = length xs"
  by (simp add: np_cumsum_def cumsum_from_length)

text \<open>The generator computes the rows of the specification, for every prior state.\<close>

lemma generate_closed_form:
  "generate_synthetic_data np g a =
     Inr (snd (interaction_draws np),
          a\<lparr>tracking_data := Some (map (synthetic_row np) [0 ..< 1000])\<rparr>)"
proof -
  let ?xs = "map (\<lambda>c. c + 100) (np_cumsum (map (\<lambda>z. z * 0.5) (fst (normal_x np))))"
  let ?ys = "map (\<lambda>c. c + 100) (np_cumsum (map (\<lambda>z. z * 0.5) (fst (normal_y np))))"
  have lx: "length (fst (normal_x np)) = 1000" and ly: "length (fst (normal_y np)) = 1000"
    by (simp_all only: normal_x_def normal_y_def draws_length)
  have body: "generate_synthetic_data np g a =
      (case DataFrame (date_range 0 1000) (fst (id_draws np)) ?xs ?ys
              (fst (velocity_draws np)) (fst (interaction_draws np)) of
         Inl e \<Rightarrow> Inl e
       | Inr df \<Rightarrow> Inr (snd (interaction_draws np), a\<lparr>tracking_data := Some df\<rparr>))"
    unfolding generate_synthetic_data_def Let_def split_beta normal_x_def normal_y_def
      id_draws_def velocity_draws_def interaction_draws_def
    by (rule refl)
  have frame: "DataFrame (date_range 0 1000) (fst (id_draws np)) ?xs ?ys
              (fst (velocity_draws np)) (fst (interaction_draws np)) =
      Inr (map (\<lambda>i. \<lparr>timestamp = date_range 0 1000 ! i, turtle_id = fst (id_draws np) ! i,
                      x_position = ?xs ! i, y_position = ?ys ! i,
                      velocity = fst (velocity_draws np) ! i,
                      interaction_type = fst (interaction_draws np) ! i\<rparr>) [0 ..< 1000])"
  proof (rule DataFrame_rows)
    show "length (fst (id_draws np)) = 1000"
      by (simp only: id_draws_def draws_length)
    show "length ?xs = 1000" by (simp only: length_map np_cumsum_length lx)
    show "length ?ys = 1000" by (simp only: length_map np_cumsum_length ly)
    show "length (fst (velocity_draws np)) = 1000"
      by (simp only: velocity_draws_def draws_length)
    show "length (fst (interaction_draws np)) = 1000"
      by (simp only: interaction_draws_def draws_length)
    show "length (date_range 0 1000) = 1000" by (rule date_range_length)
  qed
  have rows: "map (\<lambda>i. \<lparr>timestamp = date_range 0 1000 ! i, turtle_id = fst (id_draws np) ! i,
                      x_position = ?xs ! i, y_position = ?ys ! i,
                      velocity = fst (velocity_draws np) ! i,
                      interaction_type = fst (interaction_draws np) ! i\<rparr>) [0 ..< 1000]
      = map (synthetic_row np) [0 ..< 1000]"
  proof (rule map_cong [OF refl])
    fix i :: nat assume "i \<in> set [0 ..< 1000]"
    then have i: "i < 1000" by (simp only: set_upt atLeastLessThan_iff)
    have t: "date_range 0 1000 ! i = int i"
      using date_range_nth [OF i, of 0] by simp
    have x: "?xs ! i = (\<Sum>j\<le>i. fst (normal_x np) ! j * 0.5) + 100"
      by (rule offset_cumsum_nth [where f = "\<lambda>z. z * 0.5"]) (simp only: lx i)
    have y: "?ys ! i = (\<Sum>j\<le>i. fst (normal_y np) ! j * 0.5) + 100"
      by (rule offset_cumsum_nth [where f = "\<lambda>z. z * 0.5"]) (simp only: ly i)
    show "\<lparr>timestamp = date_range 0 1000 ! i, turtle_id = fst (id_draws np) ! i,
                      x_position = ?xs ! i, y_position = ?ys ! i,
                      velocity = fst (velocity_draws np) ! i,
                      interaction_type = fst (interaction_draws np) ! i\<rparr> = synthetic_row np i"
      unfolding synthetic_row_def t x y by (rule refl)
  qed
  show ?thesis
    unfolding body frame rows by simp
qed

lemma synthetic_rows_length: "length (map (synthetic_row np) [0 ..< 1000]) = 1000"
  by (simp only: length_map length_upt diff_zero)

lemma synthetic_rows_nth:
  "i < 1000 \<Longrightarrow> map (synthetic_row np) [0 ..< 1000] ! i = synthetic_row np i"
  by (simp del: upt_rec_numeral)

text \<open>
  C9. The generator returns normally with a frame of exactly 1000 rows. Row \<open>i\<close> has the
  timestamp \<open>i\<close> minutes after the fixed start; its x and y are each 100 plus the running sum,
  over the row index of the whole frame, of standard normal draws scaled by 0.5; its id is a
  draw taken after all the steps, so the walk does not depend on the labels; its velocity is
  the \<open>i\<close>-th of the gamma draws with shape 2 and scale 0.5. If numpy's gamma draws are
  non-negative, so is every velocity.
\<close>

theorem synthetic_data_shape:
  "\<exists>df g'. generate_synthetic_data np g a = Inr (g', a\<lparr>tracking_data := Some df\<rparr>) \<and>
      length df = 1000 \<and>
      (\<forall>i<1000.
         timestamp (df ! i) = int i \<and>
         x_position (df ! i) = (\<Sum>j\<le>i. fst (normal_x np) ! j * 0.5) + 100 \<and>
         y_position (df ! i) = (\<Sum>j\<le>i. fst (normal_y np) ! j * 0.5) + 100 \<and>
         turtle_id (df ! i) = fst (id_draws np) ! i \<and>
         velocity (df ! i) = fst (velocity_draws np) ! i) \<and>
      ((\<forall>s. 0 \<le> fst (gamma_draw np 2 0.5 s)) \<longrightarrow> (\<forall>r \<in> set df. 0 \<le> velocity r))"
proof (intro exI conjI)
  let ?df = "map (synthetic_row np) [0 ..< 1000]"
  show "generate_synthetic_data np g a =
      Inr (snd (interaction_draws np), a\<lparr>tracking_data := Some ?df\<rparr>)"
    by (rule generate_closed_form)
  show "length ?df = 1000" by (rule synthetic_rows_length)
  show "\<forall>i<1000.
         timestamp (?df ! i) = int i \<and>
         x_position (?df ! i) = (\<Sum>j\<le>i. fst (normal_x np) ! j * 0.5) + 100 \<and>
         y_position (?df ! i) = (\<Sum>j\<le>i. fst (normal_y np) ! j * 0.5) + 100 \<and>
         turtle_id (?df ! i) = fst (id_draws np) ! i \<and>
         velocity (?df ! i) = fst (velocity_draws np) ! i"
  proof (intro allI impI)
    fix i :: nat assume "i < 1000"
    then have "?df ! i = synthetic_row np i" by (rule synthetic_rows_nth)
    then show "timestamp (?df ! i) = int i \<and>
         x_position (?df ! i) = (\<Sum>j\<le>i. fst (normal_x np) ! j * 0.5) + 100 \<and>
         y_position (?df ! i) = (\<Sum>j\<le>i. fst (normal_y np) ! j * 0.5) + 100 \<and>
         turtle_id (?df ! i) = fst (id_draws np) ! i \<and>
         velocity (?df ! i) = fst (velocity_draws np) ! i"
      by (simp add: synthetic_row_def)
  qed
  show "(\<forall>s. 0 \<le> fst (gamma_draw np 2 0.5 s)) \<longrightarrow> (\<forall>r \<in> set ?df. 0 \<le> velocity r)"
  proof (intro impI ballI)
    fix r assume nonneg: "\<forall>s. 0 \<le> fst (gamma_draw np 2 0.5 s)" and "r \<in> set ?df"
    then obtain i where i: "i < 1000" and r: "r = synthetic_row np i"
      by (auto simp del: upt_rec_numeral)
    have "length (fst (velocity_draws np)) = 1000"
      by (simp only: velocity_draws_def draws_length)
    with i have "fst (velocity_draws np) ! i \<in> set (fst (velocity_draws np))"
      by simp
    then have "0 \<le> fst (velocity_draws np) ! i"
      unfolding velocity_draws_def
      by (rule draws_elements [where P = "\<lambda>v. 0 \<le> v", rotated]) (rule nonneg [rule_format])
    with r show "0 \<le> velocity r" by (simp add: synthetic_row_def)
  qed
qed

lemma draws_constant: "fst (draws n (\<lambda>s. (c, h s)) g) = replicate n c"
  by (induction n arbitrary: g) (simp_all add: split_beta Let_def)

theorem synthetic_data_shape_witness:
  "\<exists>df g'. generate_synthetic_data counter_random 7 (init ''chelonia'' ''24h'') =
        Inr (g', init ''chelonia'' ''24h''\<lparr>tracking_data := Some df\<rparr>) \<and>
      length df = 1000 \<and>
      timestamp (df ! 2) = 2 \<and> x_position (df ! 2) = 101.5 \<and> y_position (df ! 2) = 101.5 \<and>
      velocity (df ! 2) = 1 \<and> 0 \<le> velocity (df ! 999)"
proof -
  have nx: "fst (normal_x counter_random) = replicate 1000 1"
    and ny: "fst (normal_y counter_random) = replicate 1000 1"
    and nv: "fst (velocity_draws counter_random) = replicate 1000 1"
    by (simp_all add: normal_x_def normal_y_def velocity_draws_def counter_random_def draws_constant)
  have hyp: "\<forall>s. 0 \<le> fst (gamma_draw counter_random 2 0.5 s)"
    by (simp add: counter_random_def)
  from synthetic_data_shape [of counter_random 7 "init ''chelonia'' ''24h''"]
  obtain df g' where gen: "generate_synthetic_data counter_random 7 (init ''chelonia'' ''24h'') =
        Inr (g', init ''chelonia'' ''24h''\<lparr>tracking_data := Some df\<rparr>)"
    and len: "length df = 1000"
    and rows: "\<forall>i<1000.
         timestamp (df ! i) = int i \<and>
         x_position (df ! i) = (\<Sum>j\<le>i. fst (normal_x counter_random) ! j * 0.5) + 100 \<and>
         y_position (df ! i) = (\<Sum>j\<le>i. fst (normal_y counter_random) ! j * 0.5) + 100 \<and>
         turtle_id (df ! i) = fst (id_draws counter_random) ! i \<and>
         velocity (df ! i) = fst (velocity_draws counter_random) ! i"
    and vel: "(\<forall>s. 0 \<le> fst (gamma_draw counter_random 2 0.5 s)) \<longrightarrow> (\<forall>r \<in> set df. 0 \<le> velocity r)"
    by blast
  have s2: "(\<Sum>j\<le>2. replicate 1000 (1::real) ! j * 0.5) = 1.5"
    by (simp add: numeral_2_eq_2)
  from rows have "timestamp (df ! 2) = 2 \<and> x_position (df ! 2) = 101.5 \<and>
      y_position (df ! 2) = 101.5 \<and> velocity (df ! 2) = 1"
    using s2 by (simp add: nx ny nv)
  moreover from vel hyp len have "0 \<le> velocity (df ! 999)"
    by (simp add: nth_mem)
  ultimately show ?thesis using gen len by blast
qed

text \<open>On loaded data the analysis never raises.\<close>

lemma analyze_loaded_returns:
  assumes "tracking_data a = Some df"
  shows "\<exists>a'. analyze_movement_patterns a = Inr a'"
proof (cases "select_turtle ''turtle_a'' df = [] \<or> select_turtle ''turtle_b'' df = []")
  case True
  with assms have "analyze_movement_patterns a = Inr a" by (rule analyze_unchanged)
  then show ?thesis by blast
next
  case False
  then show ?thesis using analyze_populated [OF assms] by blast
qed

text \<open>
  C4. Whatever the state of numpy's generator before the call and whatever analyzer is
  used, the generator (seed 42, 1000 rows) stores one and the same frame; and generating and
  then analyzing on two new analyzers leaves the same results dictionary in both.
\<close>

theorem synthetic_data_deterministic:
  "(\<exists>df. map_sum id (\<lambda>s. tracking_data (snd s)) (generate_synthetic_data np g1 a1) = Inr (Some df) \<and>
         map_sum id (\<lambda>s. tracking_data (snd s)) (generate_synthetic_data np g2 a2) = Inr (Some df)) \<and>
   (\<exists>r. map_sum id (\<lambda>s. analysis_results (snd s))
           (generate_then_analyze np g1 (init sp1 du1)) = Inr r \<and>
        map_sum id (\<lambda>s. analysis_results (snd s))
           (generate_then_analyze np g2 (init sp2 du2)) = Inr r)"
proof
  show "\<exists>df. map_sum id (\<lambda>s. tracking_data (snd s)) (generate_synthetic_data np g1 a1) = Inr (Some df) \<and>
         map_sum id (\<lambda>s. tracking_data (snd s)) (generate_synthetic_data np g2 a2) = Inr (Some df)"
    by (simp add: generate_closed_form)
next
  let ?df = "map (synthetic_row np) [0 ..< 1000]"
  let ?b1 = "init sp1 du1\<lparr>tracking_data := Some ?df\<rparr>"
  let ?b2 = "init sp2 du2\<lparr>tracking_data := Some ?df\<rparr>"
  have same: "map_sum id analysis_results (analyze_movement_patterns ?b1) =
      map_sum id analysis_results (analyze_movement_patterns ?b2)"
    by (rule analyze_depends_on_series [of _ ?df _ ?df]) (simp_all add: init_def)
  obtain b where b: "analyze_movement_patterns ?b1 = Inr b"
    using analyze_loaded_returns [of ?b1 ?df] by auto
  from same b have "map_sum id analysis_results (analyze_movement_patterns ?b2) =
      Inr (analysis_results b)" by simp
  with b show "\<exists>r. map_sum id (\<lambda>s. analysis_results (snd s))
           (generate_then_analyze np g1 (init sp1 du1)) = Inr r \<and>
        map_sum id (\<lambda>s. analysis_results (snd s))
           (generate_then_analyze np g2 (init sp2 du2)) = Inr r"
    by (auto simp: generate_then_analyze_def generate_closed_form split: sum.splits)
qed


section \<open>The results dictionary across calls\<close>

lemma sel_two_pairs:
  "select_turtle ''turtle_a'' two_pairs = [row ''turtle_a'' 0 0, row ''turtle_a'' 0 0]"
  "select_turtle ''turtle_b'' two_pairs = [row ''turtle_b'' 3 4, row ''turtle_b'' 20 0]"
  by (simp_all add: two_pairs_def select_turtle_def row_def)

lemma sel_only_a:
  "select_turtle ''turtle_b'' only_a = []"
  by (simp_all add: only_a_def select_turtle_def row_def)

text \<open>
  C2, as stated, fails: after the four calls of \<open>stale_calls\<close> the stored samples have the
  single subject \<^verbatim>\<open>turtle_a\<close> and no sample of \<^verbatim>\<open>turtle_b\<close>, and the dictionary
  still holds all three keys, written by the first analysis.
\<close>

theorem stale_summary_counterexample:
  "tracking_data (snd (exec counter_random stale_calls (0, init ''chelonia'' ''24h''))) = Some only_a \<and>
   subject_ids only_a = [''turtle_a''] \<and>
   select_turtle ''turtle_b'' only_a = [] \<and>
   dom (analysis_results (snd (exec counter_random stale_calls (0, init ''chelonia'' ''24h'')))) =
     summary_keys"
proof -
  let ?a0 = "init ''chelonia'' ''24h''"
  let ?a1 = "?a0\<lparr>tracking_data := Some two_pairs\<rparr>"
  obtain r where a2: "analyze_movement_patterns ?a1 = Inr (?a1\<lparr>analysis_results := r\<rparr>)"
    and r: "dom r = summary_keys"
    using analyze_populated [of ?a1 two_pairs]
    by (auto simp: sel_two_pairs summary_keys_def init_def)
  let ?a3 = "?a1\<lparr>analysis_results := r, tracking_data := Some only_a\<rparr>"
  have a4: "analyze_movement_patterns ?a3 = Inr ?a3"
    by (rule analyze_unchanged [of _ only_a]) (simp_all add: sel_only_a)
  have "exec counter_random stale_calls (0, ?a0) = (0, ?a3)"
    using a4 by (simp add: exec_def stale_calls_def step_def load_data_def a2)
  then show ?thesis
    by (simp add: r sel_only_a) (simp add: subject_ids_def only_a_def row_def)
qed


lemma two_subjects_present:
  assumes "select_turtle ''turtle_a'' df \<noteq> []" and "select_turtle ''turtle_b'' df \<noteq> []"
  shows "2 \<le> length (subject_ids df)"
proof -
  from assms(1) obtain p where "p \<in> set df" "turtle_id p = ''turtle_a''"
    by (auto simp: select_turtle_def filter_empty_conv)
  moreover from assms(2) obtain q where "q \<in> set df" "turtle_id q = ''turtle_b''"
    by (auto simp: select_turtle_def filter_empty_conv)
  ultimately have sub: "{''turtle_a'', ''turtle_b''} \<subseteq> set (map turtle_id df)"
    by force
  have "card {''turtle_a'', ''turtle_b''} \<le> card (set (map turtle_id df))"
    by (rule card_mono [OF _ sub]) simp
  then show ?thesis
    by (simp add: subject_ids_def length_remdups_card_conv)
qed



lemma analyze_all_or_nothing:
  assumes "all_or_nothing a" and "analyze_movement_patterns a = Inr a'"
  shows "all_or_nothing a'"
proof (cases "tracking_data a")
  case None
  with assms(2) show ?thesis by (simp add: analyze_movement_patterns_def)
next
  case (Some df)
  show ?thesis
  proof (cases "select_turtle ''turtle_a'' df = [] \<or> select_turtle ''turtle_b'' df = []")
    case True
    with Some assms show ?thesis by (simp add: analyze_unchanged)
  next
    case False
    with assms analyze_populated [OF Some] show ?thesis
      by (auto simp: all_or_nothing_def summary_keys_def)
  qed
qed

lemma step_all_or_nothing:
  assumes "all_or_nothing (snd s)"
  shows "all_or_nothing (snd (step np c s))"
proof (cases c)
  case (Load_data r)
  with assms show ?thesis
    by (cases r) (simp_all add: step_def load_data_def generate_closed_form all_or_nothing_def)
next
  case Generate_synthetic_data
  with assms show ?thesis
    by (simp add: step_def generate_closed_form all_or_nothing_def)
next
  case Analyze_movement_patterns
  show ?thesis
  proof (cases "analyze_movement_patterns (snd s)")
    case (Inl e)
    with Analyze_movement_patterns assms show ?thesis by (simp add: step_def)
  next
    case (Inr a')
    with assms have "all_or_nothing a'" by (rule analyze_all_or_nothing)
    with Inr Analyze_movement_patterns show ?thesis by (simp add: step_def)
  qed
qed

lemma exec_all_or_nothing:
  "all_or_nothing (snd s) \<Longrightarrow> all_or_nothing (snd (exec np cs s))"
  unfolding exec_def
  by (induction cs arbitrary: s) (simp_all add: step_all_or_nothing)

text \<open>
  The loop computes the distances of the aligned pairs, so an analysis that finds both
  series non-empty, on a dictionary with no foreign keys, leaves exactly the summary of the
  stored frame.
\<close>

lemma collect_distances_zip:
  "collect_distances ta tb = map (\<lambda>(p, q). euclid p q) (zip ta tb)"
  by (rule nth_equalityI) (simp_all add: collect_distances_map dist_at_euclid)

lemma dom_summary_of: "dom (summary_of df) = summary_keys"
  by (auto simp: summary_of_def summary_keys_def Let_def)

lemma analyze_overwrites:
  assumes loaded: "tracking_data a = Some df"
    and ne: "select_turtle ''turtle_a'' df \<noteq> []" "select_turtle ''turtle_b'' df \<noteq> []"
    and old: "dom (analysis_results a) \<subseteq> summary_keys"
  shows "analyze_movement_patterns a = Inr (a\<lparr>analysis_results := summary_of df\<rparr>)"
proof -
  have "(analysis_results a)(''avg_distance'' \<mapsto> x, ''min_distance'' \<mapsto> y,
          ''interaction_frequency'' \<mapsto> z) =
        [''avg_distance'' \<mapsto> x, ''min_distance'' \<mapsto> y, ''interaction_frequency'' \<mapsto> z]"
    for x y z
  proof (rule ext)
    fix k
    show "((analysis_results a)(''avg_distance'' \<mapsto> x, ''min_distance'' \<mapsto> y,
          ''interaction_frequency'' \<mapsto> z)) k =
        [''avg_distance'' \<mapsto> x, ''min_distance'' \<mapsto> y, ''interaction_frequency'' \<mapsto> z] k"
      using old by (auto simp: summary_keys_def domIff subset_iff)
  qed
  then show ?thesis
    using analyze_populated [OF loaded ne]
    by (simp add: summary_of_def collect_distances_zip Let_def)
qed

text \<open>
  No call clears the dictionary: a load and the generator leave it as it is, and an analysis
  only adds or overwrites keys.
\<close>

lemma step_load_keeps_results:
  "analysis_results (snd (step np (Load_data r) s)) = analysis_results (snd s)"
  by (cases r) (simp_all add: step_def load_data_def generate_closed_form)

lemma step_generate_keeps_results:
  "analysis_results (snd (step np Generate_synthetic_data s)) = analysis_results (snd s)"
  by (simp add: step_def generate_closed_form)

lemma step_keeps_keys:
  "dom (analysis_results (snd s)) \<subseteq> dom (analysis_results (snd (step np c s)))"
proof (cases c)
  case (Load_data r)
  then show ?thesis by (simp add: step_load_keeps_results)
next
  case Generate_synthetic_data
  then show ?thesis by (simp add: step_generate_keeps_results)
next
  case Analyze_movement_patterns
  show ?thesis
  proof (cases "tracking_data (snd s)")
    case None
    with Analyze_movement_patterns show ?thesis
      by (simp add: step_def analyze_not_loaded)
  next
    case (Some df)
    show ?thesis
    proof (cases "select_turtle ''turtle_a'' df = [] \<or> select_turtle ''turtle_b'' df = []")
      case True
      with Some Analyze_movement_patterns show ?thesis
        by (simp add: step_def analyze_unchanged)
    next
      case False
      with Some Analyze_movement_patterns analyze_populated [OF Some] show ?thesis
        by (auto simp: step_def)
    qed
  qed
qed

lemma exec_keeps_keys:
  "dom (analysis_results (snd s)) \<subseteq> dom (analysis_results (snd (exec np cs s)))"
proof (induction cs arbitrary: s)
  case Nil
  show ?case by (simp add: exec_def)
next
  case (Cons c cs)
  have "dom (analysis_results (snd s)) \<subseteq> dom (analysis_results (snd (step np c s)))"
    by (rule step_keeps_keys)
  also have "\<dots> \<subseteq> dom (analysis_results (snd (exec np cs (step np c s))))"
    by (rule Cons.IH)
  finally show ?case by (simp add: exec_def)
qed

text \<open>
  Where a populated dictionary comes from: an earlier analysis in the sequence, run on a
  frame with samples of both subjects, whose summary it still holds.
\<close>

lemma exec_snoc: "exec np (cs @ [c]) s = step np c (exec np cs s)"
  by (simp add: exec_def)

lemma exec_provenance:
  "analysis_results (snd (exec np cs (g, init sp du))) = Map.empty \<or>
   (\<exists>cs1 cs2 df. cs = cs1 @ Analyze_movement_patterns # cs2 \<and>
      tracking_data (snd (exec np cs1 (g, init sp du))) = Some df \<and>
      select_turtle ''turtle_a'' df \<noteq> [] \<and> select_turtle ''turtle_b'' df \<noteq> [] \<and>
      analysis_results (snd (exec np cs (g, init sp du))) = summary_of df)"
  (is "?P cs")
proof (induction cs rule: rev_induct)
  case Nil
  show ?case by (simp add: exec_def init_def)
next
  case (snoc c cs)
  let ?s = "exec np cs (g, init sp du)"
  have later: "?P (cs @ [c])"
    if same: "analysis_results (snd (step np c ?s)) = analysis_results (snd ?s)"
  proof -
    from snoc.IH show ?thesis
    proof
      assume "analysis_results (snd ?s) = Map.empty"
      with same show ?thesis by (simp add: exec_snoc)
    next
      assume "\<exists>cs1 cs2 df. cs = cs1 @ Analyze_movement_patterns # cs2 \<and>
        tracking_data (snd (exec np cs1 (g, init sp du))) = Some df \<and>
        select_turtle ''turtle_a'' df \<noteq> [] \<and> select_turtle ''turtle_b'' df \<noteq> [] \<and>
        analysis_results (snd ?s) = summary_of df"
      then obtain cs1 cs2 df where dec: "cs = cs1 @ Analyze_movement_patterns # cs2"
        and td: "tracking_data (snd (exec np cs1 (g, init sp du))) = Some df"
        and ne: "select_turtle ''turtle_a'' df \<noteq> []" "select_turtle ''turtle_b'' df \<noteq> []"
        and res: "analysis_results (snd ?s) = summary_of df"
        by blast
      from dec have dec': "cs @ [c] = cs1 @ Analyze_movement_patterns # (cs2 @ [c])"
        by simp
      have "analysis_results (snd (exec np (cs @ [c]) (g, init sp du))) = summary_of df"
        unfolding exec_snoc using same res by simp
      with dec' td ne have "cs @ [c] = cs1 @ Analyze_movement_patterns # (cs2 @ [c]) \<and>
        tracking_data (snd (exec np cs1 (g, init sp du))) = Some df \<and>
        select_turtle ''turtle_a'' df \<noteq> [] \<and> select_turtle ''turtle_b'' df \<noteq> [] \<and>
        analysis_results (snd (exec np (cs @ [c]) (g, init sp du))) = summary_of df"
        by blast
      then show ?thesis by blast
    qed
  qed
  show ?case
  proof (cases c)
    case (Load_data r)
    then show ?thesis by (intro later) (simp add: step_load_keeps_results)
  next
    case Generate_synthetic_data
    then show ?thesis by (intro later) (simp add: step_generate_keeps_results)
  next
    case Analyze_movement_patterns
    show ?thesis
    proof (cases "tracking_data (snd ?s)")
      case None
      with Analyze_movement_patterns show ?thesis
        by (intro later) (simp add: step_def analyze_not_loaded)
    next
      case (Some df)
      show ?thesis
      proof (cases "select_turtle ''turtle_a'' df = [] \<or> select_turtle ''turtle_b'' df = []")
        case True
        with Some Analyze_movement_patterns show ?thesis
          by (intro later) (simp add: step_def analyze_unchanged)
      next
        case False
        then have ne: "select_turtle ''turtle_a'' df \<noteq> []" "select_turtle ''turtle_b'' df \<noteq> []"
          by simp_all
        have "dom (analysis_results (snd ?s)) \<subseteq> summary_keys"
        proof -
          from snoc.IH have "analysis_results (snd ?s) = Map.empty \<or>
              (\<exists>df0. analysis_results (snd ?s) = summary_of df0)"
            by blast
          then show ?thesis
          proof
            assume "analysis_results (snd ?s) = Map.empty"
            then show ?thesis by simp
          next
            assume "\<exists>df0. analysis_results (snd ?s) = summary_of df0"
            then obtain df0 where "analysis_results (snd ?s) = summary_of df0" ..
            then show ?thesis by (simp only: dom_summary_of subset_refl)
          qed
        qed
        with Some ne have "analyze_movement_patterns (snd ?s) =
            Inr ((snd ?s)\<lparr>analysis_results := summary_of df\<rparr>)"
          by (rule analyze_overwrites)
        with Analyze_movement_patterns
        have "analysis_results (snd (exec np (cs @ [c]) (g, init sp du))) = summary_of df"
          by (simp add: exec_snoc step_def)
        with Some ne Analyze_movement_patterns
        have "cs @ [c] = cs @ Analyze_movement_patterns # [] \<and>
          tracking_data (snd (exec np cs (g, init sp du))) = Some df \<and>
          select_turtle ''turtle_a'' df \<noteq> [] \<and> select_turtle ''turtle_b'' df \<noteq> [] \<and>
          analysis_results (snd (exec np (cs @ [c]) (g, init sp du))) = summary_of df"
          by simp
        then show ?thesis by blast
      qed
    qed
  qed
qed

lemma stale_calls_populated:
  "dom (analysis_results (snd (exec counter_random stale_calls (0, init ''chelonia'' ''24h'')))) =
     summary_keys"
proof -
  let ?a0 = "init ''chelonia'' ''24h''"
  let ?a1 = "?a0\<lparr>tracking_data := Some two_pairs\<rparr>"
  obtain r where a2: "analyze_movement_patterns ?a1 = Inr (?a1\<lparr>analysis_results := r\<rparr>)"
    and r: "dom r = summary_keys"
    using analyze_populated [of ?a1 two_pairs]
    by (auto simp: sel_two_pairs summary_keys_def init_def)
  let ?a3 = "?a1\<lparr>analysis_results := r, tracking_data := Some only_a\<rparr>"
  have a4: "analyze_movement_patterns ?a3 = Inr ?a3"
    by (rule analyze_unchanged [of _ only_a]) (simp_all add: sel_only_a)
  have "exec counter_random stale_calls (0, ?a0) = (0, ?a3)"
    using a4 by (simp add: exec_def stale_calls_def step_def load_data_def a2)
  then show ?thesis by (simp add: r)
qed

text \<open>
  C2, amended. Take any state reached from a new analyzer by any sequence of load, generate
  and analyze calls. Its results dictionary holds none of the three keys or all three. If it
  is not empty, then some earlier analyze call of the sequence ran on stored samples in which
  both \<^verbatim>\<open>turtle_a\<close> and \<^verbatim>\<open>turtle_b\<close> had a sample, so that at least two distinct
  subject ids were stored then, and the dictionary holds exactly the three values computed
  from those samples. A load and the generator leave the dictionary as it is, and no sequence
  of calls, from any state, removes a key: the dictionary is never cleared, and fields
  written by an earlier analysis stay populated after later loads. An analysis of loaded
  data that starts from an empty dictionary returns normally; it leaves all three keys when
  both \<^verbatim>\<open>turtle_a\<close> and \<^verbatim>\<open>turtle_b\<close> have a sample, in which case at least two
  distinct subject ids are stored, and leaves the dictionary empty otherwise.
\<close>

theorem summary_all_or_nothing:
  "(dom (analysis_results (snd (exec np cs (g, init sp du)))) = {} \<or>
    dom (analysis_results (snd (exec np cs (g, init sp du)))) = summary_keys) \<and>
   (analysis_results (snd (exec np cs (g, init sp du))) = Map.empty \<or>
    (\<exists>cs1 cs2 df. cs = cs1 @ Analyze_movement_patterns # cs2 \<and>
       tracking_data (snd (exec np cs1 (g, init sp du))) = Some df \<and>
       select_turtle ''turtle_a'' df \<noteq> [] \<and> select_turtle ''turtle_b'' df \<noteq> [] \<and>
       2 \<le> length (subject_ids df) \<and>
       analysis_results (snd (exec np cs (g, init sp du))) = summary_of df)) \<and>
   analysis_results (snd (step np (Load_data r) s)) = analysis_results (snd s) \<and>
   analysis_results (snd (step np Generate_synthetic_data s)) = analysis_results (snd s) \<and>
   dom (analysis_results (snd s)) \<subseteq> dom (analysis_results (snd (exec np cs' s))) \<and>
   (\<forall>(a::analyzer) df. tracking_data a = Some df \<and> analysis_results a = Map.empty \<longrightarrow>
      (\<exists>a'. analyze_movement_patterns a = Inr a' \<and>
         (if select_turtle ''turtle_a'' df \<noteq> [] \<and> select_turtle ''turtle_b'' df \<noteq> []
          then dom (analysis_results a') = summary_keys \<and> 2 \<le> length (subject_ids df)
          else analysis_results a' = Map.empty)))"
proof (intro conjI allI impI)
  have "all_or_nothing (snd (g, init sp du))"
    by (simp add: all_or_nothing_def init_def)
  then have "all_or_nothing (snd (exec np cs (g, init sp du)))"
    by (rule exec_all_or_nothing)
  then show "dom (analysis_results (snd (exec np cs (g, init sp du)))) = {} \<or>
    dom (analysis_results (snd (exec np cs (g, init sp du)))) = summary_keys"
    by (simp add: all_or_nothing_def)
next
  show "analysis_results (snd (exec np cs (g, init sp du))) = Map.empty \<or>
    (\<exists>cs1 cs2 df. cs = cs1 @ Analyze_movement_patterns # cs2 \<and>
       tracking_data (snd (exec np cs1 (g, init sp du))) = Some df \<and>
       select_turtle ''turtle_a'' df \<noteq> [] \<and> select_turtle ''turtle_b'' df \<noteq> [] \<and>
       2 \<le> length (subject_ids df) \<and>
       analysis_results (snd (exec np cs (g, init sp du))) = summary_of df)"
  proof -
    from exec_provenance [of np cs g sp du] show ?thesis
    proof
      assume "analysis_results (snd (exec np cs (g, init sp du))) = Map.empty"
      then show ?thesis by (rule disjI1)
    next
      assume "\<exists>cs1 cs2 df. cs = cs1 @ Analyze_movement_patterns # cs2 \<and>
        tracking_data (snd (exec np cs1 (g, init sp du))) = Some df \<and>
        select_turtle ''turtle_a'' df \<noteq> [] \<and> select_turtle ''turtle_b'' df \<noteq> [] \<and>
        analysis_results (snd (exec np cs (g, init sp du))) = summary_of df"
      then obtain cs1 cs2 df where f: "cs = cs1 @ Analyze_movement_patterns # cs2"
        "tracking_data (snd (exec np cs1 (g, init sp du))) = Some df"
        "select_turtle ''turtle_a'' df \<noteq> []" "select_turtle ''turtle_b'' df \<noteq> []"
        "analysis_results (snd (exec np cs (g, init sp du))) = summary_of df"
        by (elim exE conjE)
      from f(3,4) have "2 \<le> length (subject_ids df)" by (rule two_subjects_present)
      with f have "cs = cs1 @ Analyze_movement_patterns # cs2 \<and>
        tracking_data (snd (exec np cs1 (g, init sp du))) = Some df \<and>
        select_turtle ''turtle_a'' df \<noteq> [] \<and> select_turtle ''turtle_b'' df \<noteq> [] \<and>
        2 \<le> length (subject_ids df) \<and>
        analysis_results (snd (exec np cs (g, init sp du))) = summary_of df"
        by (intro conjI)
      then show ?thesis by (intro disjI2 exI)
    qed
  qed
next
  show "analysis_results (snd (step np (Load_data r) s)) = analysis_results (snd s)"
    by (rule step_load_keeps_results)
next
  show "analysis_results (snd (step np Generate_synthetic_data s)) = analysis_results (snd s)"
    by (rule step_generate_keeps_results)
next
  show "dom (analysis_results (snd s)) \<subseteq> dom (analysis_results (snd (exec np cs' s)))"
    by (rule exec_keeps_keys)
next
  fix a :: analyzer and df :: data_frame
  assume "tracking_data a = Some df \<and> analysis_results a = Map.empty"
  then have loaded: "tracking_data a = Some df" and empty: "analysis_results a = Map.empty"
    by simp_all
  show "\<exists>a'. analyze_movement_patterns a = Inr a' \<and>
         (if select_turtle ''turtle_a'' df \<noteq> [] \<and> select_turtle ''turtle_b'' df \<noteq> []
          then dom (analysis_results a') = summary_keys \<and> 2 \<le> length (subject_ids df)
          else analysis_results a' = Map.empty)"
  proof (cases "select_turtle ''turtle_a'' df \<noteq> [] \<and> select_turtle ''turtle_b'' df \<noteq> []")
    case True
    then show ?thesis
      using analyze_populated [OF loaded] two_subjects_present [of df] empty
      by (auto simp: summary_keys_def)
  next
    case False
    then have "analyze_movement_patterns a = Inr a"
      using analyze_unchanged [OF loaded] by blast
    with False empty show ?thesis by auto
  qed
qed

theorem summary_all_or_nothing_witness:
  "(\<exists>a'. analyze_movement_patterns (init ''chelonia'' ''24h''\<lparr>tracking_data := Some only_a\<rparr>) = Inr a' \<and>
      analysis_results a' = Map.empty) \<and>
   (\<exists>cs1 cs2 df. stale_calls = cs1 @ Analyze_movement_patterns # cs2 \<and>
      tracking_data (snd (exec counter_random cs1 (0, init ''chelonia'' ''24h''))) = Some df \<and>
      2 \<le> length (subject_ids df) \<and>
      analysis_results (snd (exec counter_random stale_calls (0, init ''chelonia'' ''24h''))) =
        summary_of df)"
proof
  note inst = summary_all_or_nothing
    [of counter_random stale_calls 0 "''chelonia''" "''24h''" "Frame only_a"
        "(0, init ''chelonia'' ''24h'')" "[]"]
  note provenance = inst [THEN conjunct2, THEN conjunct1]
  note from_empty = inst [THEN conjunct2, THEN conjunct2, THEN conjunct2, THEN conjunct2,
      THEN conjunct2, THEN spec, THEN spec, THEN mp]
  have "tracking_data (init ''chelonia'' ''24h''\<lparr>tracking_data := Some only_a\<rparr>) = Some only_a \<and>
      analysis_results (init ''chelonia'' ''24h''\<lparr>tracking_data := Some only_a\<rparr>) = Map.empty"
    by (simp add: init_def)
  from from_empty [OF this]
  show "\<exists>a'. analyze_movement_patterns (init ''chelonia'' ''24h''\<lparr>tracking_data := Some only_a\<rparr>) = Inr a' \<and>
      analysis_results a' = Map.empty"
    by (simp add: sel_only_a)
  have ne: "analysis_results (snd (exec counter_random stale_calls (0, init ''chelonia'' ''24h''))) \<noteq> Map.empty"
  proof
    assume "analysis_results (snd (exec counter_random stale_calls (0, init ''chelonia'' ''24h''))) = Map.empty"
    then have "dom (analysis_results (snd (exec counter_random stale_calls (0, init ''chelonia'' ''24h'')))) = {}"
      by (simp only: dom_empty)
    then have "summary_keys = {}" by (simp only: stale_calls_populated)
    then show False by (simp add: summary_keys_def)
  qed
  from provenance show "\<exists>cs1 cs2 df. stale_calls = cs1 @ Analyze_movement_patterns # cs2 \<and>
      tracking_data (snd (exec counter_random cs1 (0, init ''chelonia'' ''24h''))) = Some df \<and>
      2 \<le> length (subject_ids df) \<and>
      analysis_results (snd (exec counter_random stale_calls (0, init ''chelonia'' ''24h''))) =
        summary_of df"
  proof (rule disjE)
    assume "analysis_results (snd (exec counter_random stale_calls (0, init ''chelonia'' ''24h''))) = Map.empty"
    with ne show ?thesis by (rule notE)
  next
    assume "\<exists>cs1 cs2 df. stale_calls = cs1 @ Analyze_movement_patterns # cs2 \<and>
       tracking_data (snd (exec counter_random cs1 (0, init ''chelonia'' ''24h''))) = Some df \<and>
       select_turtle ''turtle_a'' df \<noteq> [] \<and> select_turtle ''turtle_b'' df \<noteq> [] \<and>
       2 \<le> length (subject_ids df) \<and>
       analysis_results (snd (exec counter_random stale_calls (0, init ''chelonia'' ''24h''))) = summary_of df"
    then obtain cs1 cs2 df where "stale_calls = cs1 @ Analyze_movement_patterns # cs2"
      "tracking_data (snd (exec counter_random cs1 (0, init ''chelonia'' ''24h''))) = Some df"
      "2 \<le> length (subject_ids df)"
      "analysis_results (snd (exec counter_random stale_calls (0, init ''chelonia'' ''24h''))) = summary_of df"
      by (elim exE conjE)
    then show ?thesis by (intro exI conjI)
  qed
qed


section \<open>Bounds on the stored values\<close>

text \<open>
  The stored count never exceeds the number of aligned pairs. Over the real numbers the least
  element of a non-empty list is at most its mean; \<^verbatim>\<open>np.mean\<close> computes in float64 and
  rounds the sum and the quotient, so the second fact speaks of exact arithmetic only and
  says nothing about the two stored floats.
\<close>

lemma sum_list_lower_bound:
  fixes ds :: "real list"
  shows "(\<And>d. d \<in> set ds \<Longrightarrow> m \<le> d) \<Longrightarrow> m * real (length ds) \<le> sum_list ds"
  by (induction ds) (auto simp: algebra_simps add_mono)

lemma least_at_most_mean:
  fixes ds :: "real list"
  assumes "ds \<noteq> []"
  shows "Min (set ds) \<le> sum_list ds / real (length ds)"
proof -
  have "Min (set ds) * real (length ds) \<le> sum_list ds"
    by (rule sum_list_lower_bound) simp
  moreover from assms have "0 < real (length ds)" by simp
  ultimately show ?thesis by (simp add: pos_le_divide_eq)
qed

lemma count_at_most_pairs:
  "length (filter (\<lambda>d. d < c) (collect_distances ta tb)) \<le> min (length ta) (length tb)"
  using length_filter_le [of "\<lambda>d. d < c" "collect_distances ta tb"]
  by (simp only: collect_distances_length)

end
